theory Spec2Isabelle
  imports Main
begin

section \<open>The command trees of core/commands/root.go\<close>

text \<open>
  The file root.go assembles two command trees out of commands that are declared in
  other files: the full tree under \<open>Root\<close> and the read-only tree under \<open>RootRO\<close>.
  Commands are handled through pointers and Go maps are reference values, so the
  embedding keeps an explicit store: pointers are the values of the datatypes below, a
  command struct lives in the store at its pointer, and a map lives in the store at its
  map reference.
\<close>

subsection \<open>Pointers and map references\<close>

text \<open>
  Modelled from the spec: the declarations of the collaborating commands (\<open>AddCmd\<close>,
  \<open>files.FilesCmd\<close>, \<open>unixfs.UnixFSCmd\<close> and the others) are in other files. Following
  the collaborator contract, by which every external subcommand supplies a Command value,
  each of these package-level variables holds a command value of its own, and the
  pointer is named after the variable. No property stated below rests on two of these
  outside variables holding different commands.

  \<open>new_ref\<close> is a pointer of type \<open>*cmds.Command\<close>. \<open>Root\<close>, \<open>RootRO\<close> and \<open>RO_block\<close>
  are the three composite literals of that type in root.go (lines 25, 142 and 151); the
  other named constructors are the variables that root.go uses and other files declare.
  \<open>Elsewhere n\<close> stands for any further command allocated outside root.go.
\<close>

datatype new_ref =
    Root | RootRO | RO_block
  | AddCmd | BlockCmd | CatCmd | GetCmd | FileStoreCmd | blockStatCmd | blockGetCmd
  | Elsewhere nat

text \<open>
  Modelled from the spec: as above, for the variables of type \<open>*oldcmds.Command\<close>
  that other files declare. \<open>RefsROCmd\<close>, \<open>RO_name\<close>, \<open>RO_object\<close> and \<open>RO_dag\<close> are
  the composite literals of root.go (lines 146, 163, 168 and 177), and
  \<open>Elsewhere_old n\<close> stands for any further command allocated outside root.go.
\<close>

datatype old_ref =
    RefsROCmd | RO_name | RO_object | RO_dag
  | BootstrapCmd | ConfigCmd | dag_DagCmd | DhtCmd | DiagCmd | DNSCmd | files_FilesCmd
  | IDCmd | KeyCmd | LogCmd | LsCmd | MountCmd | NameCmd | ocmd_ObjectCmd | PinCmd
  | PingCmd | PTPCmd | PubsubCmd | RefsCmd | RepoCmd | ResolveCmd | StatsCmd | SwarmCmd
  | TarCmd | tourCmd | unixfs_UnixFSCmd | VersionCmd | BitswapCmd | daemonShutdownCmd
  | IpnsCmd | ocmd_ObjectDataCmd | ocmd_ObjectLinksCmd | ocmd_ObjectGetCmd
  | ocmd_ObjectStatCmd | ocmd_ObjectPatchCmd | dag_DagGetCmd
  | Elsewhere_old nat

text \<open>
  A reference to a \<open>map[string]*cmds.Command\<close>: the map literals of lines 99, 148 and
  152, and the children map that the declaration of a command allocated.
\<close>

datatype new_map_ref =
    Map_rootSubcommands | Map_rootROSubcommands | Map_RO_block
  | Children_of new_ref

text \<open>
  A reference to a \<open>map[string]*oldcmds.Command\<close>: the map literals of lines 108, 160,
  164, 169 and 178, the empty map made in \<open>init\<close> (line 193), and the maps that the
  declarations of other commands allocated.
\<close>

datatype old_map_ref =
    Map_rootOldSubcommands | Map_rootROOldSubcommands
  | Map_RO_name | Map_RO_object | Map_RO_dag | Map_RefsRO
  | Children_of_old old_ref | OldChildren_of new_ref

subsection \<open>Options, help text and command structs\<close>

datatype opt_kind = BoolKind | StringKind

datatype opt_value = BoolValue bool | StringValue string

text \<open>
  Modelled from the spec: the option type of the cmdkit library (name and optional
  alias, type, default value, description).
\<close>

record cmdsutil_Option =
  Names :: "string list"
  Kind :: opt_kind
  Description :: string
  DefaultValue :: "opt_value option"

text \<open>
  Modelled from the spec: the option constructors of the cmdkit library. They take the
  names of the option followed by its description; \<open>Default\<close> sets the default value.
\<close>

definition NewOption :: "opt_kind \<Rightarrow> string list \<Rightarrow> cmdsutil_Option" where
  "NewOption k names =
     \<lparr>Names = butlast names, Kind = k, Description = last names, DefaultValue = None\<rparr>"

definition StringOption :: "string list \<Rightarrow> cmdsutil_Option" where
  "StringOption names = NewOption StringKind names"

definition BoolOption :: "string list \<Rightarrow> cmdsutil_Option" where
  "BoolOption names = NewOption BoolKind names"

definition Default :: "cmdsutil_Option \<Rightarrow> opt_value \<Rightarrow> cmdsutil_Option" where
  "Default opt v = opt\<lparr>DefaultValue := Some v\<rparr>"

text \<open>
  The help text of a command: the three fields that root.go sets, and the fields it
  never names (\<open>None\<close> when they are all zero).
\<close>

record 'x HelpText =
  Tagline :: string
  Synopsis :: string
  HelpSubcommands :: string
  HelpOther :: "'x option"

text \<open>
  Modelled from the spec: the command struct (help metadata, option set, children,
  optional handler). \<open>'m\<close> is what the \<open>Subcommands\<close> field holds: a map reference in the
  store, the entries of the map in a declaration. \<open>'h\<close> is the type of handlers and
  \<open>'x\<close> of everything root.go never names. A \<open>cmds.Command\<close> has the same fields and
  \<open>OldSubcommands\<close> on top.
\<close>

record ('m, 'h, 'x) oldcmds_Command =
  Options :: "cmdsutil_Option list"
  Run :: "'h option"
  Helptext :: "'x HelpText"
  Subcommands :: "'m option"
  Other :: "'x option"

record ('m, 'om, 'h, 'x) cmds_Command = "('m, 'h, 'x) oldcmds_Command" +
  OldSubcommands :: "'om option"

definition zero_HelpText :: "'x HelpText" where
  "zero_HelpText = \<lparr>Tagline = [], Synopsis = [], HelpSubcommands = [], HelpOther = None\<rparr>"

definition zero_oldcmd :: "('m, 'h, 'x) oldcmds_Command" where
  "zero_oldcmd =
     \<lparr>Options = [], Run = None, Helptext = zero_HelpText, Subcommands = None, Other = None\<rparr>"

definition zero_cmd :: "('m, 'om, 'h, 'x) cmds_Command" where
  "zero_cmd =
     \<lparr>Options = [], Run = None, Helptext = zero_HelpText, Subcommands = None, Other = None,
      OldSubcommands = None\<rparr>"

subsection \<open>What other files supply\<close>

text \<open>
  The functions and declarations that root.go takes from elsewhere are parameters:
  \<open>CommandsCmd\<close> and \<open>ExternalBinary\<close> return a command pointer, \<open>ProcessHelp\<close> (a
  method of the cmds library) rewrites the help text of the commands it walks, and
  \<open>declared\<close>, \<open>declared_old\<close> give the struct that each outside command was declared
  with, its children written as the entries of the map.
\<close>

record ('h, 'x) collaborators =
  CommandsCmd :: "new_ref \<Rightarrow> new_ref"
  ExternalBinary :: old_ref
  ProcessHelp :: "'x HelpText \<Rightarrow> 'x HelpText"
  declared :: "new_ref \<Rightarrow> (string \<rightharpoonup> new_ref, string \<rightharpoonup> old_ref, 'h, 'x) cmds_Command"
  declared_old :: "old_ref \<Rightarrow> (string \<rightharpoonup> old_ref, 'h, 'x) oldcmds_Command"

subsection \<open>The package-level variables (lines 21 to 185)\<close>

definition ApiOption :: string where
  "ApiOption = ''api''"

definition Root_Subcommands_help :: string where
  "Root_Subcommands_help =
     ''\<newline>'' @
     ''BASIC COMMANDS\<newline>'' @
     ''  init          Initialize ipfs local configuration\<newline>'' @
     ''  add <path>    Add a file to IPFS\<newline>'' @
     ''  cat <ref>     Show IPFS object data\<newline>'' @
     ''  get <ref>     Download IPFS objects\<newline>'' @
     ''  ls <ref>      List links from an object\<newline>'' @
     ''  refs <ref>    List hashes of links from an object\<newline>'' @
     ''\<newline>'' @
     ''DATA STRUCTURE COMMANDS\<newline>'' @
     ''  block         Interact with raw blocks in the datastore\<newline>'' @
     ''  object        Interact with raw dag nodes\<newline>'' @
     ''  files         Interact with objects as if they were a unix filesystem\<newline>'' @
     ''  dag           Interact with IPLD documents (experimental)\<newline>'' @
     ''\<newline>'' @
     ''ADVANCED COMMANDS\<newline>'' @
     ''  daemon        Start a long-running daemon process\<newline>'' @
     ''  mount         Mount an IPFS read-only mountpoint\<newline>'' @
     ''  resolve       Resolve any type of name\<newline>'' @
     ''  name          Publish and resolve IPNS names\<newline>'' @
     ''  key           Create and list IPNS name keypairs\<newline>'' @
     ''  dns           Resolve DNS links\<newline>'' @
     ''  pin           Pin objects to local storage\<newline>'' @
     ''  repo          Manipulate the IPFS repository\<newline>'' @
     ''  stats         Various operational stats\<newline>'' @
     ''  ptp           Libp2p stream mounting\<newline>'' @
     ''  filestore     Manage the filestore (experimental)\<newline>'' @
     ''\<newline>'' @
     ''NETWORK COMMANDS\<newline>'' @
     ''  id            Show info about IPFS peers\<newline>'' @
     ''  bootstrap     Add or remove bootstrap peers\<newline>'' @
     ''  swarm         Manage connections to the p2p network\<newline>'' @
     ''  dht           Query the DHT for values or peers\<newline>'' @
     ''  ping          Measure the latency of a connection\<newline>'' @
     ''  diag          Print diagnostics\<newline>'' @
     ''\<newline>'' @
     ''TOOL COMMANDS\<newline>'' @
     ''  config        Manage configuration\<newline>'' @
     ''  version       Show ipfs version information\<newline>'' @
     ''  update        Download and apply go-ipfs updates\<newline>'' @
     ''  commands      List all available commands\<newline>'' @
     ''\<newline>'' @
     ''Use 'ipfs <command> --help' to learn more about each command.\<newline>'' @
     ''\<newline>'' @
     ''ipfs uses a repository in the local file system. By default, the repo is located\<newline>'' @
     ''at ~/.ipfs. To change the repo location, set the $IPFS_PATH environment variable:\<newline>'' @
     ''\<newline>'' @
     ''  export IPFS_PATH=/path/to/ipfsrepo\<newline>'' @
     ''\<newline>'' @
     ''EXIT STATUS\<newline>'' @
     ''\<newline>'' @
     ''The CLI will exit with one of the following values:\<newline>'' @
     ''\<newline>'' @
     ''0     Successful execution.\<newline>'' @
     ''1     Failed executions.\<newline>''"

definition Root_Helptext :: "'x HelpText" where
  "Root_Helptext =
     \<lparr>Tagline = ''Global p2p merkle-dag filesystem.'',
      Synopsis = ''ipfs [--config=<config> | -c] [--debug=<debug> | -D] [--help=<help>] [-h=<h>] [--local=<local> | -L] [--api=<api>] <command> ...'',
      HelpSubcommands = Root_Subcommands_help,
      HelpOther = None\<rparr>"

definition Root_Options :: "cmdsutil_Option list" where
  "Root_Options =
     [StringOption [''config'', ''c'', ''Path to the configuration file to use.''],
      Default (BoolOption [''debug'', ''D'', ''Operate in debug mode.'']) (BoolValue False),
      Default (BoolOption [''help'', ''Show the full command help text.'']) (BoolValue False),
      Default (BoolOption [''h'', ''Show a short version of the command help text.''])
        (BoolValue False),
      Default (BoolOption [''local'', ''L'',
        ''Run the command locally, instead of using the daemon.'']) (BoolValue False),
      StringOption [ApiOption,
        ''Use a specific API instance (defaults to /ip4/127.0.0.1/tcp/5001)'']]"

definition Root_literal :: "(new_map_ref, old_map_ref, 'h, 'x) cmds_Command" where
  "Root_literal =
     \<lparr>Options = Root_Options, Run = None, Helptext = Root_Helptext, Subcommands = None,
      Other = None, OldSubcommands = None\<rparr>"

definition CommandsDaemonCmd :: "('h, 'x) collaborators \<Rightarrow> new_ref" where
  "CommandsDaemonCmd X = CommandsCmd X Root"

definition rootSubcommands :: "('h, 'x) collaborators \<Rightarrow> (string \<times> new_ref) list" where
  "rootSubcommands X =
     [(''add'', AddCmd),
      (''block'', BlockCmd),
      (''cat'', CatCmd),
      (''commands'', CommandsDaemonCmd X),
      (''get'', GetCmd),
      (''filestore'', FileStoreCmd)]"

definition rootOldSubcommands :: "('h, 'x) collaborators \<Rightarrow> (string \<times> old_ref) list" where
  "rootOldSubcommands X =
     [(''bootstrap'', BootstrapCmd),
      (''config'', ConfigCmd),
      (''dag'', dag_DagCmd),
      (''dht'', DhtCmd),
      (''diag'', DiagCmd),
      (''dns'', DNSCmd),
      (''files'', files_FilesCmd),
      (''id'', IDCmd),
      (''key'', KeyCmd),
      (''log'', LogCmd),
      (''ls'', LsCmd),
      (''mount'', MountCmd),
      (''name'', NameCmd),
      (''object'', ocmd_ObjectCmd),
      (''pin'', PinCmd),
      (''ping'', PingCmd),
      (''ptp'', PTPCmd),
      (''pubsub'', PubsubCmd),
      (''refs'', RefsCmd),
      (''repo'', RepoCmd),
      (''resolve'', ResolveCmd),
      (''stats'', StatsCmd),
      (''swarm'', SwarmCmd),
      (''tar'', TarCmd),
      (''tour'', tourCmd),
      (''file'', unixfs_UnixFSCmd),
      (''update'', ExternalBinary X),
      (''version'', VersionCmd),
      (''bitswap'', BitswapCmd),
      (''shutdown'', daemonShutdownCmd)]"

definition RootRO_literal :: "(new_map_ref, old_map_ref, 'h, 'x) cmds_Command" where
  "RootRO_literal = zero_cmd"

definition CommandsDaemonROCmd :: "('h, 'x) collaborators \<Rightarrow> new_ref" where
  "CommandsDaemonROCmd X = CommandsCmd X RootRO"

definition RefsROCmd_literal :: "(old_map_ref, 'h, 'x) oldcmds_Command" where
  "RefsROCmd_literal = zero_oldcmd"

definition RO_block_Subcommands :: "(string \<times> new_ref) list" where
  "RO_block_Subcommands = [(''stat'', blockStatCmd), (''get'', blockGetCmd)]"

definition RO_block_literal :: "(new_map_ref, old_map_ref, 'h, 'x) cmds_Command" where
  "RO_block_literal =
     \<lparr>Options = [], Run = None, Helptext = zero_HelpText, Subcommands = Some Map_RO_block,
      Other = None, OldSubcommands = None\<rparr>"

definition rootROSubcommands :: "('h, 'x) collaborators \<Rightarrow> (string \<times> new_ref) list" where
  "rootROSubcommands X =
     [(''commands'', CommandsDaemonROCmd X),
      (''cat'', CatCmd),
      (''block'', RO_block),
      (''get'', GetCmd)]"

definition RO_name_Subcommands :: "(string \<times> old_ref) list" where
  "RO_name_Subcommands = [(''resolve'', IpnsCmd)]"

definition RO_name_literal :: "(old_map_ref, 'h, 'x) oldcmds_Command" where
  "RO_name_literal =
     \<lparr>Options = [], Run = None, Helptext = zero_HelpText, Subcommands = Some Map_RO_name,
      Other = None\<rparr>"

definition RO_object_Subcommands :: "(string \<times> old_ref) list" where
  "RO_object_Subcommands =
     [(''data'', ocmd_ObjectDataCmd),
      (''links'', ocmd_ObjectLinksCmd),
      (''get'', ocmd_ObjectGetCmd),
      (''stat'', ocmd_ObjectStatCmd),
      (''patch'', ocmd_ObjectPatchCmd)]"

definition RO_object_literal :: "(old_map_ref, 'h, 'x) oldcmds_Command" where
  "RO_object_literal =
     \<lparr>Options = [], Run = None, Helptext = zero_HelpText, Subcommands = Some Map_RO_object,
      Other = None\<rparr>"

definition RO_dag_Subcommands :: "(string \<times> old_ref) list" where
  "RO_dag_Subcommands = [(''get'', dag_DagGetCmd)]"

definition RO_dag_literal :: "(old_map_ref, 'h, 'x) oldcmds_Command" where
  "RO_dag_literal =
     \<lparr>Options = [], Run = None, Helptext = zero_HelpText, Subcommands = Some Map_RO_dag,
      Other = None\<rparr>"

definition rootROOldSubcommands :: "(string \<times> old_ref) list" where
  "rootROOldSubcommands =
     [(''dns'', DNSCmd),
      (''ls'', LsCmd),
      (''name'', RO_name),
      (''object'', RO_object),
      (''dag'', RO_dag),
      (''refs'', RefsROCmd),
      (''resolve'', ResolveCmd),
      (''version'', VersionCmd)]"

text \<open>The top-level command names that section 6 of the specification lists.\<close>

definition cli_surface :: "string list" where
  "cli_surface =
     [''add'', ''cat'', ''get'', ''ls'', ''refs'', ''block'', ''object'', ''files'', ''dag'',
      ''daemon'', ''mount'', ''resolve'', ''name'', ''key'', ''dns'', ''pin'', ''repo'',
      ''stats'', ''ptp'', ''filestore'', ''id'', ''bootstrap'', ''swarm'', ''dht'', ''ping'',
      ''diag'', ''config'', ''version'', ''update'', ''commands'']"

subsection \<open>The store\<close>

record ('h, 'x) heap =
  new_cmd :: "new_ref \<Rightarrow> (new_map_ref, old_map_ref, 'h, 'x) cmds_Command"
  old_cmd :: "old_ref \<Rightarrow> (old_map_ref, 'h, 'x) oldcmds_Command"
  new_map :: "new_map_ref \<rightharpoonup> (string \<rightharpoonup> new_ref)"
  old_map :: "old_map_ref \<rightharpoonup> (string \<rightharpoonup> old_ref)"

text \<open>
  The struct of a command declared in another file, as it lies in the store: its
  children map, when it has one, is a map of its own.
\<close>

definition alloc_old ::
  "old_ref \<Rightarrow> (string \<rightharpoonup> old_ref, 'h, 'x) oldcmds_Command \<Rightarrow> (old_map_ref, 'h, 'x) oldcmds_Command"
where
  "alloc_old r d =
     \<lparr>Options = Options d, Run = Run d, Helptext = Helptext d,
      Subcommands = map_option (\<lambda>_. Children_of_old r) (Subcommands d), Other = Other d\<rparr>"

definition alloc_new ::
  "new_ref \<Rightarrow> (string \<rightharpoonup> new_ref, string \<rightharpoonup> old_ref, 'h, 'x) cmds_Command
     \<Rightarrow> (new_map_ref, old_map_ref, 'h, 'x) cmds_Command"
where
  "alloc_new r d =
     \<lparr>Options = Options d, Run = Run d, Helptext = Helptext d,
      Subcommands = map_option (\<lambda>_. Children_of r) (Subcommands d), Other = Other d,
      OldSubcommands = map_option (\<lambda>_. OldChildren_of r) (OldSubcommands d)\<rparr>"

definition local_new :: "new_ref \<Rightarrow> bool" where
  "local_new r = (r = Root \<or> r = RootRO \<or> r = RO_block)"

definition local_old :: "old_ref \<Rightarrow> bool" where
  "local_old r = (r = RefsROCmd \<or> r = RO_name \<or> r = RO_object \<or> r = RO_dag)"

text \<open>
  The store once the package-level variables are initialised and before \<open>init\<close> runs.
  The map of line 193 does not exist yet.
\<close>

definition package_vars :: "('h, 'x) collaborators \<Rightarrow> ('h, 'x) heap" where
  "package_vars X =
     \<lparr>new_cmd = (\<lambda>r.
        if r = Root then Root_literal
        else if r = RootRO then RootRO_literal
        else if r = RO_block then RO_block_literal
        else alloc_new r (declared X r)),
      old_cmd = (\<lambda>r.
        if r = RefsROCmd then RefsROCmd_literal
        else if r = RO_name then RO_name_literal
        else if r = RO_object then RO_object_literal
        else if r = RO_dag then RO_dag_literal
        else alloc_old r (declared_old X r)),
      new_map = (\<lambda>m. case m of
          Map_rootSubcommands \<Rightarrow> Some (map_of (rootSubcommands X))
        | Map_rootROSubcommands \<Rightarrow> Some (map_of (rootROSubcommands X))
        | Map_RO_block \<Rightarrow> Some (map_of RO_block_Subcommands)
        | Children_of r \<Rightarrow> if local_new r then None else Subcommands (declared X r)),
      old_map = (\<lambda>m. case m of
          Map_rootOldSubcommands \<Rightarrow> Some (map_of (rootOldSubcommands X))
        | Map_rootROOldSubcommands \<Rightarrow> Some (map_of rootROOldSubcommands)
        | Map_RO_name \<Rightarrow> Some (map_of RO_name_Subcommands)
        | Map_RO_object \<Rightarrow> Some (map_of RO_object_Subcommands)
        | Map_RO_dag \<Rightarrow> Some (map_of RO_dag_Subcommands)
        | Map_RefsRO \<Rightarrow> None
        | Children_of_old r \<Rightarrow> if local_old r then None else Subcommands (declared_old X r)
        | OldChildren_of r \<Rightarrow> if local_new r then None else OldSubcommands (declared X r))\<rparr>"

subsection \<open>The function init (lines 187 to 200)\<close>

text \<open>
  Each statement of \<open>init\<close> is one step on the store. When \<open>Root.ProcessHelp()\<close> runs,
  \<open>Root\<close> has no children yet, so the walk visits \<open>Root\<close> alone.
\<close>

definition init :: "('h, 'x) collaborators \<Rightarrow> ('h, 'x) heap \<Rightarrow> ('h, 'x) heap" where
  "init X h0 =
     (let
        \<comment> \<open>\<open>Root.ProcessHelp()\<close>\<close>
        h1 = h0\<lparr>new_cmd := (new_cmd h0)
               (Root := (new_cmd h0 Root)\<lparr>Helptext := ProcessHelp X (Helptext (new_cmd h0 Root))\<rparr>)\<rparr>;
        \<comment> \<open>\<open>*RootRO = *Root\<close>\<close>
        h2 = h1\<lparr>new_cmd := (new_cmd h1)(RootRO := new_cmd h1 Root)\<rparr>;
        \<comment> \<open>\<open>*RefsROCmd = *RefsCmd\<close>\<close>
        h3 = h2\<lparr>old_cmd := (old_cmd h2)(RefsROCmd := old_cmd h2 RefsCmd)\<rparr>;
        \<comment> \<open>\<open>RefsROCmd.Subcommands = map[string]*oldcmds.Command{}\<close>\<close>
        h4 = h3\<lparr>old_map := (old_map h3)(Map_RefsRO \<mapsto> Map.empty),
               old_cmd := (old_cmd h3)
                 (RefsROCmd := (old_cmd h3 RefsROCmd)\<lparr>Subcommands := Some Map_RefsRO\<rparr>)\<rparr>;
        \<comment> \<open>\<open>Root.OldSubcommands = rootOldSubcommands\<close>\<close>
        h5 = h4\<lparr>new_cmd := (new_cmd h4)
               (Root := (new_cmd h4 Root)\<lparr>OldSubcommands := Some Map_rootOldSubcommands\<rparr>)\<rparr>;
        \<comment> \<open>\<open>Root.Subcommands = rootSubcommands\<close>\<close>
        h6 = h5\<lparr>new_cmd := (new_cmd h5)
               (Root := (new_cmd h5 Root)\<lparr>Subcommands := Some Map_rootSubcommands\<rparr>)\<rparr>;
        \<comment> \<open>\<open>RootRO.OldSubcommands = rootROOldSubcommands\<close>\<close>
        h7 = h6\<lparr>new_cmd := (new_cmd h6)
               (RootRO := (new_cmd h6 RootRO)\<lparr>OldSubcommands := Some Map_rootROOldSubcommands\<rparr>)\<rparr>;
        \<comment> \<open>\<open>RootRO.Subcommands = rootROSubcommands\<close>\<close>
        h8 = h7\<lparr>new_cmd := (new_cmd h7)
               (RootRO := (new_cmd h7 RootRO)\<lparr>Subcommands := Some Map_rootROSubcommands\<rparr>)\<rparr>
      in h8)"

text \<open>The store when package initialisation is complete.\<close>

definition started :: "('h, 'x) collaborators \<Rightarrow> ('h, 'x) heap" where
  "started X = init X (package_vars X)"

subsection \<open>Reading and changing the children of a command\<close>

text \<open>
  The entries of the two children maps of a command. Reading a nil map finds no entry.
\<close>

definition subcommands_of :: "('h, 'x) heap \<Rightarrow> new_ref \<Rightarrow> (string \<rightharpoonup> new_ref)" where
  "subcommands_of h r =
     (case Subcommands (new_cmd h r) of
        None \<Rightarrow> Map.empty
      | Some m \<Rightarrow> (case new_map h m of None \<Rightarrow> Map.empty | Some f \<Rightarrow> f))"

definition old_subcommands_of :: "('h, 'x) heap \<Rightarrow> new_ref \<Rightarrow> (string \<rightharpoonup> old_ref)" where
  "old_subcommands_of h r =
     (case OldSubcommands (new_cmd h r) of
        None \<Rightarrow> Map.empty
      | Some m \<Rightarrow> (case old_map h m of None \<Rightarrow> Map.empty | Some f \<Rightarrow> f))"

text \<open>
  A change of a children map through a root, as a test harness would make it:
  \<open>root.Subcommands[k] = c\<close>, \<open>delete(root.Subcommands, k)\<close>, and the same on
  \<open>root.OldSubcommands\<close>. Go panics on an assignment into a nil map (the result
  \<open>None\<close>) and ignores a deletion from one.
\<close>

datatype mutation =
    Insert string new_ref
  | Delete string
  | Insert_old string old_ref
  | Delete_old string

fun mutate :: "new_ref \<Rightarrow> mutation \<Rightarrow> ('h, 'x) heap \<Rightarrow> ('h, 'x) heap option" where
  "mutate r (Insert k c) h =
     (case Subcommands (new_cmd h r) of
        None \<Rightarrow> None
      | Some m \<Rightarrow> (case new_map h m of
          None \<Rightarrow> None
        | Some f \<Rightarrow> Some (h\<lparr>new_map := (new_map h)(m \<mapsto> f(k \<mapsto> c))\<rparr>)))"
| "mutate r (Delete k) h =
     (case Subcommands (new_cmd h r) of
        None \<Rightarrow> Some h
      | Some m \<Rightarrow> (case new_map h m of
          None \<Rightarrow> Some h
        | Some f \<Rightarrow> Some (h\<lparr>new_map := (new_map h)(m \<mapsto> f(k := None))\<rparr>)))"
| "mutate r (Insert_old k c) h =
     (case OldSubcommands (new_cmd h r) of
        None \<Rightarrow> None
      | Some m \<Rightarrow> (case old_map h m of
          None \<Rightarrow> None
        | Some f \<Rightarrow> Some (h\<lparr>old_map := (old_map h)(m \<mapsto> f(k \<mapsto> c))\<rparr>)))"
| "mutate r (Delete_old k) h =
     (case OldSubcommands (new_cmd h r) of
        None \<Rightarrow> Some h
      | Some m \<Rightarrow> (case old_map h m of
          None \<Rightarrow> Some h
        | Some f \<Rightarrow> Some (h\<lparr>old_map := (old_map h)(m \<mapsto> f(k := None))\<rparr>)))"

subsection \<open>Sample collaborators\<close>

text \<open>
  One concrete choice of what the other files supply, on which the construction can be
  evaluated: \<open>CommandsCmd\<close> allocates a command for each root, \<open>ProcessHelp\<close> leaves
  the help text as it is, and \<open>RefsCmd\<close> is declared with a tagline, a handler and one
  child.
\<close>

definition sample_RefsCmd :: "(string \<rightharpoonup> old_ref, nat, unit) oldcmds_Command" where
  "sample_RefsCmd =
     \<lparr>Options = [Default (BoolOption [''unique'', ''u'', ''Omit duplicate refs from output.''])
                   (BoolValue False)],
      Run = Some 7,
      Helptext = zero_HelpText\<lparr>Tagline := ''List links (references) from an object.''\<rparr>,
      Subcommands = Some [''local'' \<mapsto> Elsewhere_old 1],
      Other = None\<rparr>"

definition sample :: "(nat, unit) collaborators" where
  "sample =
     \<lparr>CommandsCmd = (\<lambda>r. if r = Root then Elsewhere 0 else if r = RootRO then Elsewhere 1
                           else Elsewhere 2),
      ExternalBinary = Elsewhere_old 0,
      ProcessHelp = (\<lambda>ht. ht),
      declared = (\<lambda>r. zero_cmd),
      declared_old = (\<lambda>r. if r = RefsCmd then sample_RefsCmd else zero_oldcmd)\<rparr>"

section \<open>The text marshaler for message outputs (lines 202 to 218)\<close>

record MessageOutput =
  Message :: string

text \<open>
  The value of an \<open>interface{}\<close>: nil, a \<open>*MessageOutput\<close> (the pointer itself may be
  nil), or a value of any other dynamic type, which \<open>'t\<close> names.
\<close>

datatype 't iface =
    Nil_interface
  | MessageOutput_ptr "MessageOutput option"
  | Other_value 't

datatype 't go_type = No_type | Ptr_MessageOutput | Other_type 't

fun dynamic_type :: "'t iface \<Rightarrow> 't go_type" where
  "dynamic_type Nil_interface = No_type"
| "dynamic_type (MessageOutput_ptr p) = Ptr_MessageOutput"
| "dynamic_type (Other_value t) = Other_type t"

datatype 't error =
    PayloadShapeMismatch (expected: "'t go_type") (actual: "'t go_type")
  | Failure string

text \<open>
  Modelled from the spec: \<open>e.TypeErr\<close> is declared in core/commands/e; the error for a
  payload of the wrong shape names both the expected and the actual shape.
\<close>

definition TypeErr :: "'t iface \<Rightarrow> 't iface \<Rightarrow> 't error" where
  "TypeErr exp act = PayloadShapeMismatch (dynamic_type exp) (dynamic_type act)"

record 'o Response =
  Output :: 'o

text \<open>
  What a call of \<open>MessageTextMarshaler\<close> does: it returns a reader over a string, it
  returns an error, or it panics on a nil pointer.
\<close>

datatype 't result = Reader string | Err "'t error" | Panic_nil_dereference

text \<open>
  \<open>unwrapOutput\<close> is declared in another file of the package and is a parameter. When
  the type assertion fails, \<open>out\<close> is the nil \<open>*MessageOutput\<close>.
\<close>

definition MessageTextMarshaler ::
  "('o \<Rightarrow> 't error + 't iface) \<Rightarrow> 'o Response \<Rightarrow> 't result"
where
  "MessageTextMarshaler unwrapOutput res =
     (case unwrapOutput (Output res) of
        Inl err \<Rightarrow> Err err
      | Inr v \<Rightarrow>
          (case v of
             MessageOutput_ptr out \<Rightarrow>
               (case out of
                  None \<Rightarrow> Panic_nil_dereference
                | Some m \<Rightarrow> Reader (Message m))
           | Nil_interface \<Rightarrow> Err (TypeErr (MessageOutput_ptr None) v)
           | Other_value t \<Rightarrow> Err (TypeErr (MessageOutput_ptr None) v)))"

section \<open>Properties of the construction\<close>

subsection \<open>The store after initialisation\<close>

lemma started_new_map: "new_map (started X) = new_map (package_vars X)"
  by (simp add: started_def init_def Let_def)

lemma started_old_map:
  "old_map (started X) = (old_map (package_vars X))(Map_RefsRO \<mapsto> Map.empty)"
  by (simp add: started_def init_def Let_def)

lemma started_Root:
  "new_cmd (started X) Root = Root_literal
     \<lparr>Helptext := ProcessHelp X Root_Helptext,
      OldSubcommands := Some Map_rootOldSubcommands,
      Subcommands := Some Map_rootSubcommands\<rparr>"
  by (simp add: started_def init_def package_vars_def Let_def Root_literal_def)

lemma started_RootRO:
  "new_cmd (started X) RootRO = Root_literal
     \<lparr>Helptext := ProcessHelp X Root_Helptext,
      OldSubcommands := Some Map_rootROOldSubcommands,
      Subcommands := Some Map_rootROSubcommands\<rparr>"
  by (simp add: started_def init_def package_vars_def Let_def Root_literal_def)

lemma started_RefsROCmd:
  "old_cmd (started X) RefsROCmd =
     (old_cmd (package_vars X) RefsCmd)\<lparr>Subcommands := Some Map_RefsRO\<rparr>"
  by (simp add: started_def init_def package_vars_def Let_def)

lemma started_RefsCmd: "old_cmd (started X) RefsCmd = old_cmd (package_vars X) RefsCmd"
  by (simp add: started_def init_def Let_def)

lemma package_vars_RefsCmd:
  "old_cmd (package_vars X) RefsCmd = alloc_old RefsCmd (declared_old X RefsCmd)"
  by (simp add: package_vars_def)

lemma subcommands_of_Root: "subcommands_of (started X) Root = map_of (rootSubcommands X)"
  by (simp add: subcommands_of_def started_Root started_new_map package_vars_def)

lemma subcommands_of_RootRO:
  "subcommands_of (started X) RootRO = map_of (rootROSubcommands X)"
  by (simp add: subcommands_of_def started_RootRO started_new_map package_vars_def)

lemma old_subcommands_of_Root:
  "old_subcommands_of (started X) Root = map_of (rootOldSubcommands X)"
  by (simp add: old_subcommands_of_def started_Root started_old_map package_vars_def)

lemma old_subcommands_of_RootRO:
  "old_subcommands_of (started X) RootRO = map_of rootROOldSubcommands"
  by (simp add: old_subcommands_of_def started_RootRO started_old_map package_vars_def)

lemma Root_Options_eval:
  "Root_Options =
     [\<lparr>Names = [''config'', ''c''], Kind = StringKind,
       Description = ''Path to the configuration file to use.'', DefaultValue = None\<rparr>,
      \<lparr>Names = [''debug'', ''D''], Kind = BoolKind,
       Description = ''Operate in debug mode.'', DefaultValue = Some (BoolValue False)\<rparr>,
      \<lparr>Names = [''help''], Kind = BoolKind,
       Description = ''Show the full command help text.'',
       DefaultValue = Some (BoolValue False)\<rparr>,
      \<lparr>Names = [''h''], Kind = BoolKind,
       Description = ''Show a short version of the command help text.'',
       DefaultValue = Some (BoolValue False)\<rparr>,
      \<lparr>Names = [''local'', ''L''], Kind = BoolKind,
       Description = ''Run the command locally, instead of using the daemon.'',
       DefaultValue = Some (BoolValue False)\<rparr>,
      \<lparr>Names = [''api''], Kind = StringKind,
       Description = ''Use a specific API instance (defaults to /ip4/127.0.0.1/tcp/5001)'',
       DefaultValue = None\<rparr>]"
  by (simp add: Root_Options_def StringOption_def BoolOption_def NewOption_def Default_def
      ApiOption_def)

lemma started_Root_Options: "Options (new_cmd (started X) Root) = Root_Options"
  by (simp add: started_Root Root_literal_def)

lemma started_RootRO_Options: "Options (new_cmd (started X) RootRO) = Root_Options"
  by (simp add: started_RootRO Root_literal_def)

subsection \<open>C1: the restricted tree against the full tree\<close>

text \<open>
  C1 says that every top-level name of the restricted tree maps to the very same
  command value as in the full tree. It fails at \<open>block\<close>: under \<open>RootRO\<close> the name
  leads to the command that the literal of line 151 allocates, which is not what the
  full tree holds under that name.
\<close>

theorem restricted_block_is_not_the_full_block:
  "subcommands_of (started sample) RootRO ''block'' = Some RO_block
   \<and> subcommands_of (started sample) Root ''block'' \<noteq> Some RO_block"
  by (simp add: subcommands_of_Root subcommands_of_RootRO rootSubcommands_def
      rootROSubcommands_def)

text \<open>
  C1, as amended: every top-level name of the restricted tree is a name of the full
  tree, in the map of the same kind. For \<open>cat\<close>, \<open>get\<close>, \<open>dns\<close>, \<open>ls\<close>, \<open>resolve\<close> and
  \<open>version\<close> the two trees hold the same command pointer. For \<open>block\<close>, \<open>name\<close>,
  \<open>object\<close>, \<open>dag\<close> and \<open>refs\<close> the restricted tree holds a command that root.go
  builds itself, not the one of the full tree. For \<open>commands\<close> the restricted tree holds
  the result of \<open>CommandsCmd(RootRO)\<close> and the full tree that of \<open>CommandsCmd(Root)\<close>.
\<close>

theorem restricted_names_and_leaves:
  "dom (subcommands_of (started X) RootRO) \<subseteq> dom (subcommands_of (started X) Root)
   \<and> dom (old_subcommands_of (started X) RootRO) \<subseteq> dom (old_subcommands_of (started X) Root)
   \<and> dom (subcommands_of (started X) RootRO) = {''commands'', ''cat'', ''block'', ''get''}
   \<and> dom (old_subcommands_of (started X) RootRO) =
       {''dns'', ''ls'', ''name'', ''object'', ''dag'', ''refs'', ''resolve'', ''version''}
   \<and> subcommands_of (started X) RootRO ''cat'' = Some CatCmd
   \<and> subcommands_of (started X) Root ''cat'' = Some CatCmd
   \<and> subcommands_of (started X) RootRO ''get'' = Some GetCmd
   \<and> subcommands_of (started X) Root ''get'' = Some GetCmd
   \<and> old_subcommands_of (started X) RootRO ''dns'' = Some DNSCmd
   \<and> old_subcommands_of (started X) Root ''dns'' = Some DNSCmd
   \<and> old_subcommands_of (started X) RootRO ''ls'' = Some LsCmd
   \<and> old_subcommands_of (started X) Root ''ls'' = Some LsCmd
   \<and> old_subcommands_of (started X) RootRO ''resolve'' = Some ResolveCmd
   \<and> old_subcommands_of (started X) Root ''resolve'' = Some ResolveCmd
   \<and> old_subcommands_of (started X) RootRO ''version'' = Some VersionCmd
   \<and> old_subcommands_of (started X) Root ''version'' = Some VersionCmd
   \<and> subcommands_of (started X) RootRO ''block'' = Some RO_block
   \<and> subcommands_of (started X) Root ''block'' = Some BlockCmd
   \<and> old_subcommands_of (started X) RootRO ''name'' = Some RO_name
   \<and> old_subcommands_of (started X) Root ''name'' = Some NameCmd
   \<and> old_subcommands_of (started X) RootRO ''object'' = Some RO_object
   \<and> old_subcommands_of (started X) Root ''object'' = Some ocmd_ObjectCmd
   \<and> old_subcommands_of (started X) RootRO ''dag'' = Some RO_dag
   \<and> old_subcommands_of (started X) Root ''dag'' = Some dag_DagCmd
   \<and> old_subcommands_of (started X) RootRO ''refs'' = Some RefsROCmd
   \<and> old_subcommands_of (started X) Root ''refs'' = Some RefsCmd
   \<and> subcommands_of (started X) RootRO ''commands'' = Some (CommandsCmd X RootRO)
   \<and> subcommands_of (started X) Root ''commands'' = Some (CommandsCmd X Root)"
  unfolding subcommands_of_Root subcommands_of_RootRO old_subcommands_of_Root
    old_subcommands_of_RootRO
  by (simp add: dom_map_of_conv_image_fst rootSubcommands_def rootROSubcommands_def
      rootOldSubcommands_def rootROOldSubcommands_def CommandsDaemonCmd_def
      CommandsDaemonROCmd_def insert_commute)

subsection \<open>C3: the children maps of the two roots are separate maps\<close>

text \<open>
  C3: after \<open>init\<close>, whatever insertion or deletion is made in a children map through
  \<open>Root\<close>, the two children maps of \<open>RootRO\<close> read as before, and the other way round;
  the four fields hold four different map references.
\<close>

theorem children_maps_independent:
  "map_option (\<lambda>h. (subcommands_of h RootRO, old_subcommands_of h RootRO))
     (mutate Root mu (started X))
     = Some (subcommands_of (started X) RootRO, old_subcommands_of (started X) RootRO)
   \<and> map_option (\<lambda>h. (subcommands_of h Root, old_subcommands_of h Root))
     (mutate RootRO mu (started X))
     = Some (subcommands_of (started X) Root, old_subcommands_of (started X) Root)
   \<and> Subcommands (new_cmd (started X) Root) = Some Map_rootSubcommands
   \<and> Subcommands (new_cmd (started X) RootRO) = Some Map_rootROSubcommands
   \<and> OldSubcommands (new_cmd (started X) Root) = Some Map_rootOldSubcommands
   \<and> OldSubcommands (new_cmd (started X) RootRO) = Some Map_rootROOldSubcommands"
  by (cases mu)
    (simp_all add: started_Root started_RootRO started_new_map started_old_map
      subcommands_of_def old_subcommands_of_def package_vars_def)

lemma mutate_Root_takes_effect:
  "map_option (\<lambda>h. subcommands_of h Root) (mutate Root (Insert k c) (started X))
     = Some ((map_of (rootSubcommands X))(k \<mapsto> c))
   \<and> map_option (\<lambda>h. subcommands_of h Root) (mutate Root (Delete k) (started X))
     = Some ((map_of (rootSubcommands X))(k := None))
   \<and> map_option (\<lambda>h. old_subcommands_of h Root) (mutate Root (Insert_old k d) (started X))
     = Some ((map_of (rootOldSubcommands X))(k \<mapsto> d))
   \<and> map_option (\<lambda>h. old_subcommands_of h Root) (mutate Root (Delete_old k) (started X))
     = Some ((map_of (rootOldSubcommands X))(k := None))"
  by (simp add: started_Root started_new_map started_old_map
      subcommands_of_def old_subcommands_of_def package_vars_def)

lemma mutate_RootRO_takes_effect:
  "map_option (\<lambda>h. subcommands_of h RootRO) (mutate RootRO (Insert k c) (started X))
     = Some ((map_of (rootROSubcommands X))(k \<mapsto> c))
   \<and> map_option (\<lambda>h. subcommands_of h RootRO) (mutate RootRO (Delete k) (started X))
     = Some ((map_of (rootROSubcommands X))(k := None))
   \<and> map_option (\<lambda>h. old_subcommands_of h RootRO) (mutate RootRO (Insert_old k d) (started X))
     = Some ((map_of rootROOldSubcommands)(k \<mapsto> d))
   \<and> map_option (\<lambda>h. old_subcommands_of h RootRO) (mutate RootRO (Delete_old k) (started X))
     = Some ((map_of rootROOldSubcommands)(k := None))"
  by (simp add: started_RootRO started_new_map started_old_map
      subcommands_of_def old_subcommands_of_def package_vars_def)

subsection \<open>C4: the pruned refs command\<close>

text \<open>
  C4: after \<open>init\<close>, the restricted tree has \<open>RefsROCmd\<close> under the name \<open>refs\<close>; its
  children map is empty, and it equals the \<open>RefsCmd\<close> of the full tree in every other
  field, among them the help text and the handler.
\<close>

theorem RefsROCmd_pruned_copy:
  "old_subcommands_of (started X) RootRO ''refs'' = Some RefsROCmd
   \<and> old_subcommands_of (started X) Root ''refs'' = Some RefsCmd
   \<and> Subcommands (old_cmd (started X) RefsROCmd) = Some Map_RefsRO
   \<and> old_map (started X) Map_RefsRO = Some Map.empty
   \<and> old_cmd (started X) RefsROCmd =
       (old_cmd (started X) RefsCmd)\<lparr>Subcommands := Some Map_RefsRO\<rparr>
   \<and> Helptext (old_cmd (started X) RefsROCmd) = Helptext (old_cmd (started X) RefsCmd)
   \<and> Run (old_cmd (started X) RefsROCmd) = Run (old_cmd (started X) RefsCmd)
   \<and> Options (old_cmd (started X) RefsROCmd) = Options (old_cmd (started X) RefsCmd)
   \<and> Other (old_cmd (started X) RefsROCmd) = Other (old_cmd (started X) RefsCmd)"
  by (simp add: old_subcommands_of_Root old_subcommands_of_RootRO rootOldSubcommands_def
      rootROOldSubcommands_def started_RefsROCmd started_RefsCmd started_old_map)

subsection \<open>C5: the global options of the root\<close>

text \<open>
  C5 says that the option \<open>api\<close> defaults to the address /ip4/127.0.0.1/tcp/5001. The
  option is built without a call of \<open>Default\<close>: its default value is unset, and the
  address occurs in its description only.
\<close>

theorem api_option_has_no_default:
  "Names (Options (new_cmd (started sample) Root) ! 5) = [''api'']
   \<and> DefaultValue (Options (new_cmd (started sample) Root) ! 5)
       \<noteq> Some (StringValue ''/ip4/127.0.0.1/tcp/5001'')"
  by (simp add: started_Root_Options Root_Options_eval)

text \<open>
  C5, as amended: the root carries exactly six global options: \<open>config\<close> (string,
  alias \<open>c\<close>, no default), \<open>debug\<close> (boolean, alias \<open>D\<close>, default false), \<open>help\<close>
  (boolean, default false), \<open>h\<close> (boolean, default false), \<open>local\<close> (boolean, alias
  \<open>L\<close>, default false) and \<open>api\<close> (string, no alias, no default value; its
  description says that the API instance defaults to /ip4/127.0.0.1/tcp/5001). \<open>init\<close>
  leaves them as declared, and \<open>RootRO\<close> carries the same list.
\<close>

theorem Root_global_options:
  "Options (new_cmd (started X) Root) =
     [\<lparr>Names = [''config'', ''c''], Kind = StringKind,
       Description = ''Path to the configuration file to use.'', DefaultValue = None\<rparr>,
      \<lparr>Names = [''debug'', ''D''], Kind = BoolKind,
       Description = ''Operate in debug mode.'', DefaultValue = Some (BoolValue False)\<rparr>,
      \<lparr>Names = [''help''], Kind = BoolKind,
       Description = ''Show the full command help text.'',
       DefaultValue = Some (BoolValue False)\<rparr>,
      \<lparr>Names = [''h''], Kind = BoolKind,
       Description = ''Show a short version of the command help text.'',
       DefaultValue = Some (BoolValue False)\<rparr>,
      \<lparr>Names = [''local'', ''L''], Kind = BoolKind,
       Description = ''Run the command locally, instead of using the daemon.'',
       DefaultValue = Some (BoolValue False)\<rparr>,
      \<lparr>Names = [''api''], Kind = StringKind,
       Description = ''Use a specific API instance (defaults to /ip4/127.0.0.1/tcp/5001)'',
       DefaultValue = None\<rparr>]
   \<and> Options (new_cmd (started X) RootRO) = Options (new_cmd (started X) Root)
   \<and> Options (new_cmd (package_vars X) Root) = Options (new_cmd (started X) Root)"
  by (simp add: started_Root_Options started_RootRO_Options Root_Options_eval [symmetric]
      package_vars_def Root_literal_def)

subsection \<open>C6: the names of the command-line surface\<close>

text \<open>
  C6 says that every name of the listed command-line surface is a key of one of the two
  maps of the full root. The name \<open>daemon\<close> is listed and is a key of neither.
\<close>

theorem daemon_is_not_registered:
  "''daemon'' \<in> set cli_surface
   \<and> ''daemon'' \<notin> dom (map_of (rootSubcommands sample)) \<union> dom (map_of (rootOldSubcommands sample))"
  by (simp add: dom_map_of_conv_image_fst cli_surface_def rootSubcommands_def
      rootOldSubcommands_def)

text \<open>
  C6, as amended: of the names that the specification lists for the command-line
  surface, every one but \<open>daemon\<close> is a key of \<open>rootSubcommands\<close> or of
  \<open>rootOldSubcommands\<close>; \<open>daemon\<close> is a key of neither.
\<close>

theorem cli_surface_registered_except_daemon:
  "filter (\<lambda>n. n \<notin> dom (map_of (rootSubcommands X)) \<union> dom (map_of (rootOldSubcommands X)))
     cli_surface = [''daemon'']"
  by (simp add: dom_map_of_conv_image_fst cli_surface_def rootSubcommands_def
      rootOldSubcommands_def)

subsection \<open>C7: child names are unique under each root\<close>

text \<open>
  C7: no name is a key of both \<open>rootSubcommands\<close> and \<open>rootOldSubcommands\<close>, and no
  name is a key of both \<open>rootROSubcommands\<close> and \<open>rootROOldSubcommands\<close>; within each of
  the four map literals the keys are distinct as well.
\<close>

theorem child_names_unique:
  "dom (map_of (rootSubcommands X)) \<inter> dom (map_of (rootOldSubcommands X)) = {}
   \<and> dom (map_of (rootROSubcommands X)) \<inter> dom (map_of rootROOldSubcommands) = {}
   \<and> distinct (map fst (rootSubcommands X)) \<and> distinct (map fst (rootOldSubcommands X))
   \<and> distinct (map fst (rootROSubcommands X)) \<and> distinct (map fst rootROOldSubcommands)"
  by (simp add: dom_map_of_conv_image_fst rootSubcommands_def rootOldSubcommands_def
      rootROSubcommands_def rootROOldSubcommands_def)

subsection \<open>The entries files and file\<close>

text \<open>
  The full tree has \<open>files\<close> and \<open>file\<close> as two entries of \<open>rootOldSubcommands\<close>, the
  first bound to the variable \<open>files.FilesCmd\<close> and the second to the variable
  \<open>unixfs.UnixFSCmd\<close>; neither name is a key of \<open>rootSubcommands\<close>. Whether the two
  variables hold different commands is decided by their declarations in other files.
\<close>

lemma files_and_file_entries:
  "old_subcommands_of (started X) Root ''files'' = Some files_FilesCmd
   \<and> old_subcommands_of (started X) Root ''file'' = Some unixfs_UnixFSCmd
   \<and> subcommands_of (started X) Root ''files'' = None
   \<and> subcommands_of (started X) Root ''file'' = None"
  by (simp add: subcommands_of_Root old_subcommands_of_Root rootSubcommands_def
      rootOldSubcommands_def)

subsection \<open>C10: init does not change RefsCmd\<close>

text \<open>
  C10: after \<open>init\<close>, the struct of \<open>RefsCmd\<close> is what it was before, field by field
  what its declaration gave it; its \<open>Subcommands\<close> field holds the same map reference,
  and that map has the same contents.
\<close>

theorem init_leaves_RefsCmd_unchanged:
  "old_cmd (started X) RefsCmd = old_cmd (package_vars X) RefsCmd
   \<and> old_cmd (started X) RefsCmd = alloc_old RefsCmd (declared_old X RefsCmd)
   \<and> Subcommands (old_cmd (started X) RefsCmd) =
       map_option (\<lambda>_. Children_of_old RefsCmd) (Subcommands (declared_old X RefsCmd))
   \<and> old_map (started X) (Children_of_old RefsCmd) =
       old_map (package_vars X) (Children_of_old RefsCmd)
   \<and> old_map (started X) (Children_of_old RefsCmd) = Subcommands (declared_old X RefsCmd)"
  by (simp add: started_RefsCmd started_old_map package_vars_def alloc_old_def local_old_def)

subsection \<open>C2: MessageTextMarshaler\<close>

text \<open>
  C2: when the unwrapped payload of the response is a \<open>MessageOutput\<close> with message
  \<open>pong\<close>, \<open>MessageTextMarshaler\<close> returns a reader over exactly \<open>pong\<close>. When the
  unwrapped payload has any dynamic type other than \<open>*MessageOutput\<close>, it returns the
  error that names \<open>*MessageOutput\<close> as the expected and the type of the payload as the
  actual shape, and it does not return a reader over the empty string.
\<close>

theorem MessageTextMarshaler_pong_or_mismatch:
  "(unwrapOutput (Output res) = Inr (MessageOutput_ptr (Some \<lparr>Message = ''pong''\<rparr>)) \<longrightarrow>
      MessageTextMarshaler unwrapOutput res = Reader ''pong'')
   \<and> (unwrapOutput (Output res) = Inr v \<and> dynamic_type v \<noteq> Ptr_MessageOutput \<longrightarrow>
      MessageTextMarshaler unwrapOutput res
        = Err (PayloadShapeMismatch Ptr_MessageOutput (dynamic_type v))
      \<and> MessageTextMarshaler unwrapOutput res \<noteq> Reader [])"
  by (cases v) (simp_all add: MessageTextMarshaler_def TypeErr_def)

text \<open>
  The theorem for C2 at two concrete responses: one carrying the message \<open>pong\<close>, one
  carrying a value of the type \<open>string\<close>.
\<close>

theorem MessageTextMarshaler_pong_or_mismatch_witness:
  "Inr (Output \<lparr>Output = MessageOutput_ptr (Some \<lparr>Message = ''pong''\<rparr>)\<rparr>)
      = (Inr (MessageOutput_ptr (Some \<lparr>Message = ''pong''\<rparr>)) :: string error + string iface)
   \<and> MessageTextMarshaler Inr \<lparr>Output = MessageOutput_ptr (Some \<lparr>Message = ''pong''\<rparr>)\<rparr>
      = (Reader ''pong'' :: string result)
   \<and> Inr (Output \<lparr>Output = Other_value ''string''\<rparr>)
      = (Inr (Other_value ''string'') :: string error + string iface)
   \<and> dynamic_type (Other_value ''string'') \<noteq> Ptr_MessageOutput
   \<and> MessageTextMarshaler Inr \<lparr>Output = Other_value ''string''\<rparr>
      = Err (PayloadShapeMismatch Ptr_MessageOutput (Other_type ''string''))
   \<and> MessageTextMarshaler Inr \<lparr>Output = Other_value ''string''\<rparr> \<noteq> (Reader [] :: string result)"
proof -
  let ?ok = "\<lparr>Output = MessageOutput_ptr (Some \<lparr>Message = ''pong''\<rparr>) :: string iface\<rparr>"
  let ?bad = "\<lparr>Output = Other_value ''string'' :: string iface\<rparr>"
  let ?u = "Inr :: string iface \<Rightarrow> string error + string iface"
  have h1: "?u (Output ?ok) = Inr (MessageOutput_ptr (Some \<lparr>Message = ''pong''\<rparr>))"
    by simp
  have h2: "?u (Output ?bad) = Inr (Other_value ''string'')
            \<and> dynamic_type (Other_value ''string'' :: string iface) \<noteq> Ptr_MessageOutput"
    by simp
  from MessageTextMarshaler_pong_or_mismatch [of ?u ?ok] h1
  have r1: "MessageTextMarshaler ?u ?ok = Reader ''pong''"
    by blast
  from MessageTextMarshaler_pong_or_mismatch [of ?u ?bad "Other_value ''string''"] h2
  have r2: "MessageTextMarshaler ?u ?bad
              = Err (PayloadShapeMismatch Ptr_MessageOutput
                  (dynamic_type (Other_value ''string'' :: string iface)))
            \<and> MessageTextMarshaler ?u ?bad \<noteq> Reader []"
    by blast
  from h1 h2 r1 r2 show ?thesis by simp
qed


end
